theory Spec2Isabelle
  imports Complex_Main "HOL-Library.Extended_Nat"
begin

section \<open>The world snapshot read by the Overlord\<close>

text \<open>
  The Overlord reads the game world through the colony object. Every entity the code
  touches is a record holding the fields the code reads. A reference that may be
  \<^verbatim>\<open>undefined\<close> in the source is an \<open>option\<close>; reading a property of it
  goes through \<open>deref\<close>, which raises.
\<close>

type_synonym ref = nat

datatype error = TypeError

definition deref :: "'a option \<Rightarrow> error + 'a" where
  "deref r = (case r of None \<Rightarrow> Inl TypeError | Some v \<Rightarrow> Inr v)"

definition andThen :: "error + 'a \<Rightarrow> ('a \<Rightarrow> error + 'b) \<Rightarrow> error + 'b" where
  "andThen m f = (case m of Inl e \<Rightarrow> Inl e | Inr v \<Rightarrow> f v)"

record RoomPosition =
  pos_x :: int
  pos_y :: int
  roomName :: string

record Flag =
  flagName :: string
  color :: nat
  secondaryColor :: nat

record Structure =
  ref :: ref
  structureType :: string
  hits :: nat
  hitsMax :: nat

record Resource =
  resourceRef :: ref
  amount :: nat

record HostileCreep =
  ownerUsername :: string
  pos :: RoomPosition

record StructureStorage =
  storageRef :: ref
  energy :: nat

record Room =
  energyAvailable :: nat
  storage :: "StructureStorage option"
  terminal :: "ref option"
  labs :: "ref list"
  storageUnits :: "ref list"
  controller :: "ref option"
  flags :: "Flag list"
  hostiles :: "HostileCreep list"
  barriers :: "Structure list"
  repairables :: "Structure list"
  droppedEnergy :: "Resource list"
  structureSites :: "ref list"
  roadSites :: "ref list"

text \<open>
  The hatchery of \<^verbatim>\<open>queen.ts\<close> and the one the Overlord enqueues to are the same
  hive cluster: \<open>hatcheryPos\<close> is its position, \<open>link\<close> and \<open>battery\<close> its two energy
  structures, \<open>getPrioritizedClosestRequest\<close> the query of its transport requests (the
  request group is not part of the sources, so the query is a field of the snapshot).
\<close>

record EnergyStructure =
  structureRef :: ref
  isEmpty :: bool
  isFull :: bool

record TransportRequest =
  requestTarget :: ref

record Hatchery =
  hatcheryPos :: RoomPosition
  link :: "EnergyStructure option"
  battery :: "EnergyStructure option"
  getPrioritizedClosestRequest :: "RoomPosition \<Rightarrow> string \<Rightarrow> TransportRequest option"

datatype Colony = Colony
  (colonyName: string)
  (room: Room)
  (rooms: "Room list")
  (outposts: "Room list")
  (incubatingColonies: "Colony list")
  (isIncubating: bool)
  (incubator: "Colony option")
  (hatchery: "Hatchery option")
  (getCreepsByRole: "string \<Rightarrow> ref list")

text \<open>
  The names imported by the Overlord whose definitions are not part of the sources:
  the emergency threshold and the two marker-flag filters of the directive classes.
\<close>

record Imports =
  EMERGENCY_ENERGY_THRESHOLD :: nat
  DirectiveGuard_filter :: "Flag \<Rightarrow> bool"
  DirectiveEmergency_filter :: "Flag \<Rightarrow> bool"

section \<open>What a sub-step does to its collaborators\<close>

text \<open>
  A sub-step acts on the world through calls on its collaborators: it enqueues a creep
  request at the hatchery, has a directive class create a directive at a position, or
  has the controller activate safe mode. The creep setup classes are imported; a request
  records the role the setup stands for and the options passed to \<^verbatim>\<open>create\<close>.
\<close>

record ProtoCreep =
  role :: string
  assignment :: "ref option"
  patternRepetitionLimit :: enat

datatype Effect =
    HatcheryEnqueue ProtoCreep
  | DirectiveGuardCreate RoomPosition
  | DirectiveEmergencyCreate RoomPosition
  | ActivateSafeMode ref

section \<open>The objective group\<close>

text \<open>
  Modelled from the spec: the \<^verbatim>\<open>ObjectiveGroup\<close> class, the objective classes and the
  creep interface are imported by the Overlord but are not part of the sources. The
  definitions of this section follow sections 3 and 4.1 of the specification: an
  objective is a type tag, a target and a claim marker; the group maps each bucket name
  of the configured priority list to a sequence of objectives; \<open>registerObjectives\<close>
  appends every objective to the bucket of its type; \<open>assignTask\<close> walks the buckets in
  the configured order, skips a bucket whose action the worker is not capable of, picks
  among the objectives not yet claimed the one nearest to the worker (the first of them
  in registration order when distances tie), binds a task to its target and marks the
  objective claimed. The claim marker is kept per target (section 1: a single
  currently-assigned marker per target; section 3: at most one worker may hold a claim on
  an objective's target within a tick), so \<open>claim\<close> marks every objective of the group
  that is bound to the target and not yet claimed. The distance is a parameter. The
  targets are those of the snapshot of the tick; a target that vanishes within the tick
  is not modelled.
\<close>

record 't Objective =
  otype :: string
  target :: 't
  claimedBy :: "ref option"

record 't Task =
  owner :: ref
  action :: string
  taskTarget :: 't

record ICreep =
  creepRef :: ref
  capabilities :: "string list"

record 't ObjectiveGroup =
  priorities :: "string list"
  objectives :: "string \<Rightarrow> 't Objective list"

definition newObjectiveGroup :: "string list \<Rightarrow> 't ObjectiveGroup" where
  "newObjectiveGroup ps = \<lparr> priorities = ps, objectives = (\<lambda>b. []) \<rparr>"

definition ObjectiveGroup_registerObjectives ::
    "'t Objective list list \<Rightarrow> 't ObjectiveGroup \<Rightarrow> 't ObjectiveGroup" where
  "ObjectiveGroup_registerObjectives sets g =
     g\<lparr> objectives := (\<lambda>b. objectives g b @ filter (\<lambda>ob. otype ob = b) (concat sets)) \<rparr>"

fun nearest :: "(nat \<Rightarrow> nat) \<Rightarrow> nat list \<Rightarrow> nat option" where
  "nearest f [] = None"
| "nearest f (i # is) =
     (case nearest f is of
        None \<Rightarrow> Some i
      | Some j \<Rightarrow> if f i \<le> f j then Some i else Some j)"

definition unclaimed :: "'t Objective list \<Rightarrow> nat list" where
  "unclaimed obs = filter (\<lambda>i. claimedBy (obs ! i) = None) [0..<length obs]"

definition nearestUnclaimed :: "('t \<Rightarrow> nat) \<Rightarrow> 't Objective list \<Rightarrow> nat option" where
  "nearestUnclaimed distance obs = nearest (\<lambda>i. distance (target (obs ! i))) (unclaimed obs)"

definition mark :: "ref \<Rightarrow> 't \<Rightarrow> 't Objective \<Rightarrow> 't Objective" where
  "mark w x ob =
     (if target ob = x \<and> claimedBy ob = None then ob\<lparr> claimedBy := Some w \<rparr> else ob)"

definition claim :: "ref \<Rightarrow> 't \<Rightarrow> 't ObjectiveGroup \<Rightarrow> 't ObjectiveGroup" where
  "claim w x g = g\<lparr> objectives := (\<lambda>b. map (mark w x) (objectives g b)) \<rparr>"

fun assignFrom ::
    "(ICreep \<Rightarrow> 't \<Rightarrow> nat) \<Rightarrow> ICreep \<Rightarrow> 't ObjectiveGroup \<Rightarrow> string list
       \<Rightarrow> 't Task option \<times> 't ObjectiveGroup" where
  "assignFrom distance w g [] = (None, g)"
| "assignFrom distance w g (b # bs) =
     (if b \<in> set (capabilities w) then
        (case nearestUnclaimed (distance w) (objectives g b) of
           None \<Rightarrow> assignFrom distance w g bs
         | Some i \<Rightarrow>
             (Some \<lparr> owner = creepRef w, action = b,
                     taskTarget = target (objectives g b ! i) \<rparr>,
              claim (creepRef w) (target (objectives g b ! i)) g))
      else assignFrom distance w g bs)"

definition ObjectiveGroup_assignTask ::
    "(ICreep \<Rightarrow> 't \<Rightarrow> nat) \<Rightarrow> ICreep \<Rightarrow> 't ObjectiveGroup
       \<Rightarrow> 't Task option \<times> 't ObjectiveGroup" where
  "ObjectiveGroup_assignTask distance w g = assignFrom distance w g (priorities g)"

text \<open>
  Modelled from the spec: the objective classes build an objective of their own type for
  a target. The type tags are the bucket names of the Overlord's priority list.
\<close>

datatype Target =
    StructureTarget Structure
  | ResourceTarget Resource
  | SiteTarget ref
  | ControllerTarget ref

definition newObjective :: "string \<Rightarrow> Target \<Rightarrow> Target Objective" where
  "newObjective ty t = \<lparr> otype = ty, target = t, claimedBy = None \<rparr>"

definition ObjectiveCollectEnergyMiningSite :: "Structure \<Rightarrow> Target Objective" where
  "ObjectiveCollectEnergyMiningSite container =
     newObjective ''collectEnergyMiningSite'' (StructureTarget container)"

definition ObjectiveDepositContainer :: "Structure \<Rightarrow> Target Objective" where
  "ObjectiveDepositContainer container =
     newObjective ''depositContainer'' (StructureTarget container)"

definition ObjectivePickupEnergy :: "Resource \<Rightarrow> Target Objective" where
  "ObjectivePickupEnergy res = newObjective ''pickupEnergy'' (ResourceTarget res)"

definition ObjectiveRepair :: "Structure \<Rightarrow> Target Objective" where
  "ObjectiveRepair s = newObjective ''repair'' (StructureTarget s)"

definition ObjectiveBuild :: "ref \<Rightarrow> Target Objective" where
  "ObjectiveBuild site = newObjective ''build'' (SiteTarget site)"

definition ObjectiveBuildRoad :: "ref \<Rightarrow> Target Objective" where
  "ObjectiveBuildRoad site = newObjective ''buildRoad'' (SiteTarget site)"

definition ObjectiveFortify :: "Structure \<Rightarrow> Target Objective" where
  "ObjectiveFortify barrier = newObjective ''fortify'' (StructureTarget barrier)"

definition ObjectiveUpgrade :: "ref \<Rightarrow> Target Objective" where
  "ObjectiveUpgrade ctl = newObjective ''upgrade'' (ControllerTarget ctl)"

section \<open>The Overlord\<close>

record ResourceRequest =
  requester :: Structure
  resourceType :: string

record ResourceRequestGroup =
  resourceIn_haul :: "ResourceRequest list"
  resourceOut_haul :: "ResourceRequest list"

record Settings =
  incubationWorkersToSend :: nat
  unloadStorageBuffer :: nat
  workerPatternRepetitionLimit :: enat

type_synonym Directive = string

record Overlord =
  colony :: Colony
  directives :: "Directive list"
  objectivePriorities :: "string list"
  objectiveGroup :: "Target ObjectiveGroup"
  resourceRequests :: ResourceRequestGroup
  settings :: Settings

text \<open>The constructor; \<open>this.room\<close> is \<open>colony.room\<close> throughout.\<close>

definition defaultPriorities :: "string list" where
  "defaultPriorities =
     [''supplyTower'', ''supply'', ''pickupEnergy'', ''collectEnergyMiningSite'',
      ''collectEnergyContainer'', ''depositContainer'', ''build'', ''repair'',
      ''buildRoad'', ''fortify'', ''upgrade'']"

definition newOverlord :: "Colony \<Rightarrow> Overlord" where
  "newOverlord c =
     \<lparr> colony = c,
       directives = [],
       objectivePriorities = defaultPriorities,
       objectiveGroup = newObjectiveGroup defaultPriorities,
       resourceRequests = \<lparr> resourceIn_haul = [], resourceOut_haul = [] \<rparr>,
       settings = \<lparr> incubationWorkersToSend = 3,
                    unloadStorageBuffer = 750000,
                    workerPatternRepetitionLimit = \<infinity> \<rparr> \<rparr>"

section \<open>Objective management\<close>

text \<open>
  The constants of the game interface that the filters compare with. Hit points are
  natural numbers. The comparison \<^verbatim>\<open>s.hits < 0.7 * s.hitsMax\<close> is taken over the
  reals: the product computed in double precision is never above the exact one by a
  representable integer and is below it by far less than one tenth for every number of
  hit points a structure can have, so comparing it with an integer gives the same answer.
\<close>

definition RESOURCE_ENERGY :: string where
  "RESOURCE_ENERGY = ''energy''"

definition STRUCTURE_CONTAINER :: string where
  "STRUCTURE_CONTAINER = ''container''"

definition STRUCTURE_ROAD :: string where
  "STRUCTURE_ROAD = ''road''"

definition requestObjectives :: "Overlord \<Rightarrow> Target Objective list list" where
  "requestObjectives ov =
     (let withdrawalRequests = filter (\<lambda>request. resourceType request = RESOURCE_ENERGY)
                                 (resourceOut_haul (resourceRequests ov));
          collectContainers = map requester withdrawalRequests;
          collectEnergyMiningSiteObjectives =
            map ObjectiveCollectEnergyMiningSite collectContainers;
          depositRequests = filter (\<lambda>request. resourceType request = RESOURCE_ENERGY)
                              (resourceIn_haul (resourceRequests ov));
          depositContainers = map requester depositRequests;
          depositContainerObjectives = map ObjectiveDepositContainer depositContainers
      in [collectEnergyMiningSiteObjectives, depositContainerObjectives])"

definition repairStructures :: "Room \<Rightarrow> Structure list" where
  "repairStructures r =
     filter (\<lambda>s. hits s < hitsMax s \<and>
                 (structureType s \<noteq> STRUCTURE_CONTAINER
                    \<or> real (hits s) < 0.7 * real (hitsMax s)) \<and>
                 (structureType s \<noteq> STRUCTURE_ROAD
                    \<or> real (hits s) < 0.7 * real (hitsMax s)))
       (repairables r)"

definition roomObjectives :: "Overlord \<Rightarrow> Room \<Rightarrow> Target Objective list list" where
  "roomObjectives ov r =
     (let dropped = filter (\<lambda>d. amount d > 100) (droppedEnergy r);
          pickupEnergyObjectives = map ObjectivePickupEnergy dropped;
          repairObjectives = map ObjectiveRepair (repairStructures r);
          buildObjectives = map ObjectiveBuild (structureSites r);
          buildRoadObjectives = map ObjectiveBuildRoad (roadSites r);
          fortifyObjectives =
            (if incubator (colony ov) = None then
               map ObjectiveFortify (take 5 (sort_key hits (barriers r)))
             else []);
          upgradeObjectives =
            (case controller r of None \<Rightarrow> [] | Some ctl \<Rightarrow> [ObjectiveUpgrade ctl])
      in [pickupEnergyObjectives, repairObjectives, buildObjectives,
          buildRoadObjectives, fortifyObjectives, upgradeObjectives])"

definition registerObjectives :: "Overlord \<Rightarrow> Overlord" where
  "registerObjectives ov =
     ov\<lparr> objectiveGroup :=
           fold (\<lambda>r. ObjectiveGroup_registerObjectives (roomObjectives ov r))
             (rooms (colony ov))
             (ObjectiveGroup_registerObjectives (requestObjectives ov)
                (objectiveGroup ov)) \<rparr>"

text \<open>The objectives that \<open>registerObjectives\<close> adds to a bucket.\<close>

definition registered :: "Overlord \<Rightarrow> string \<Rightarrow> Target Objective list" where
  "registered ov b =
     drop (length (objectives (objectiveGroup ov) b))
       (objectives (objectiveGroup (registerObjectives ov)) b)"

definition assignTask ::
    "(ICreep \<Rightarrow> Target \<Rightarrow> nat) \<Rightarrow> ICreep \<Rightarrow> Overlord \<Rightarrow> Target Task option \<times> Overlord" where
  "assignTask distance creep ov =
     (case ObjectiveGroup_assignTask distance creep (objectiveGroup ov) of
        (t, g) \<Rightarrow> (t, ov\<lparr> objectiveGroup := g \<rparr>))"




section \<open>Spawner operations\<close>

definition numWorkersNeeded :: "Colony \<Rightarrow> nat" where
  "numWorkersNeeded c = (if incubator c \<noteq> None then 3 else 1)"

definition mineralSupplierRequests :: "Overlord \<Rightarrow> error + Effect list" where
  "mineralSupplierRequests ov =
     (let c = colony ov; r = room c in
      if terminal r \<noteq> None \<and> length (labs r) > 0 then
        (if length (getCreepsByRole c ''mineralSupplier'') < 1 then
           andThen (deref (hatchery c)) (\<lambda>h.
             Inr [HatcheryEnqueue \<lparr> role = ''mineralSupplier'',
                                    assignment = terminal r,
                                    patternRepetitionLimit = 1 \<rparr>])
         else Inr [])
      else Inr [])"

definition workerRequests :: "Overlord \<Rightarrow> error + Effect list" where
  "workerRequests ov =
     (let c = colony ov; r = room c;
          numWorkers = length (getCreepsByRole c ''worker'') in
      if numWorkers < numWorkersNeeded c \<and> length (storageUnits r) > 0 then
        andThen (deref (hatchery c)) (\<lambda>h.
          Inr [HatcheryEnqueue \<lparr> role = ''worker'',
                                 assignment = controller r,
                                 patternRepetitionLimit =
                                   workerPatternRepetitionLimit (settings ov) \<rparr>])
      else Inr [])"

definition registerCreepRequests :: "Overlord \<Rightarrow> error + Effect list" where
  "registerCreepRequests ov =
     (if hatchery (colony ov) \<noteq> None then
        andThen (mineralSupplierRequests ov) (\<lambda>es1.
        andThen (workerRequests ov) (\<lambda>es2. Inr (es1 @ es2)))
      else Inr [])"

section \<open>Directive placement\<close>

definition roomsToCheck :: "Colony \<Rightarrow> Room list" where
  "roomsToCheck c = outposts c @ concat (map rooms (incubatingColonies c))"

text \<open>
  The body of the loop over \<open>roomsToCheck\<close>. \<open>room.hostiles[0]\<close> is read only when
  the list is not empty, so the read of its \<open>pos\<close> goes through \<open>deref\<close> of the head.
\<close>

definition headOf :: "'a list \<Rightarrow> 'a option" where
  "headOf xs = (case xs of [] \<Rightarrow> None | v # _ \<Rightarrow> Some v)"

definition placeGuard :: "Imports \<Rightarrow> Room \<Rightarrow> error + Effect list" where
  "placeGuard imp r =
     (let guardFlags = filter (DirectiveGuard_filter imp) (flags r) in
      if length (hostiles r) > 0 \<and> length guardFlags = 0 then
        andThen (deref (headOf (hostiles r))) (\<lambda>h. Inr [DirectiveGuardCreate (pos h)])
      else Inr [])"

fun placeGuards :: "Imports \<Rightarrow> Room list \<Rightarrow> error + Effect list" where
  "placeGuards imp [] = Inr []"
| "placeGuards imp (r # rs) =
     andThen (placeGuard imp r) (\<lambda>es1.
     andThen (placeGuards imp rs) (\<lambda>es2. Inr (es1 @ es2)))"

definition roomHasEnergy :: "Imports \<Rightarrow> Overlord \<Rightarrow> bool" where
  "roomHasEnergy imp ov =
     (energyAvailable (room (colony ov)) \<ge> EMERGENCY_ENERGY_THRESHOLD imp)"

definition roomHasEnergySupply :: "Imports \<Rightarrow> Overlord \<Rightarrow> bool" where
  "roomHasEnergySupply imp ov =
     (case storage (room (colony ov)) of
        None \<Rightarrow> False
      | Some s \<Rightarrow> energy s > EMERGENCY_ENERGY_THRESHOLD imp \<and>
                  length (getCreepsByRole (colony ov) ''supplier'') > 0)"

definition roomHasMiners :: "Overlord \<Rightarrow> bool" where
  "roomHasMiners ov = (length (getCreepsByRole (colony ov) ''miner'') > 0)"

definition emergencyFlags :: "Imports \<Rightarrow> Overlord \<Rightarrow> Flag list" where
  "emergencyFlags imp ov = filter (DirectiveEmergency_filter imp) (flags (room (colony ov)))"

definition placeEmergency :: "Imports \<Rightarrow> Overlord \<Rightarrow> error + Effect list" where
  "placeEmergency imp ov =
     (if \<not> isIncubating (colony ov) \<and> hatchery (colony ov) \<noteq> None then
        (if \<not> roomHasEnergy imp ov \<and> \<not> roomHasEnergySupply imp ov \<and> \<not> roomHasMiners ov
            \<and> length (emergencyFlags imp ov) = 0 then
           andThen (deref (hatchery (colony ov))) (\<lambda>h.
             Inr [DirectiveEmergencyCreate (hatcheryPos h)])
         else Inr [])
      else Inr [])"

definition placeDirectives :: "Imports \<Rightarrow> Overlord \<Rightarrow> error + Effect list" where
  "placeDirectives imp ov =
     andThen (placeGuards imp (roomsToCheck (colony ov))) (\<lambda>es1.
     andThen (placeEmergency imp ov) (\<lambda>es2. Inr (es1 @ es2)))"

section \<open>Safe mode\<close>

definition criticalBarriers :: "Overlord \<Rightarrow> Structure list" where
  "criticalBarriers ov = filter (\<lambda>s. hits s < 5000) (barriers (room (colony ov)))"

definition nonInvaderHostiles :: "Overlord \<Rightarrow> HostileCreep list" where
  "nonInvaderHostiles ov =
     filter (\<lambda>creep. ownerUsername creep \<noteq> ''Invader'') (hostiles (room (colony ov)))"

definition handleSafeMode :: "Overlord \<Rightarrow> error + Effect list" where
  "handleSafeMode ov =
     (if length (criticalBarriers ov) > 0 \<and> length (nonInvaderHostiles ov) > 0
         \<and> incubator (colony ov) = None then
        andThen (deref (controller (room (colony ov)))) (\<lambda>ctl. Inr [ActivateSafeMode ctl])
      else Inr [])"

section \<open>Initialization and operation\<close>

text \<open>
  \<open>init\<close> and \<open>run\<close> call the hooks of the directives and the sub-steps one after the
  other. The outcome lists the calls in the order they are made, the effects of the
  sub-steps, and the exception that ended the phase, if one did: a step after a raise
  is not made. The hooks of the directives are not part of the sources; a hook is a
  call in the outcome.
\<close>

datatype Step =
    DirectiveInit Directive
  | RegisterObjectives
  | RegisterCreepRequests
  | DirectiveRun Directive
  | HandleSafeMode
  | PlaceDirectives

record Outcome =
  steps :: "Step list"
  effects :: "Effect list"
  raised :: "error option"

definition noOutcome :: Outcome where
  "noOutcome = \<lparr> steps = [], effects = [], raised = None \<rparr>"

definition runStep :: "Step \<Rightarrow> error + Effect list \<Rightarrow> Outcome \<Rightarrow> Outcome" where
  "runStep s body out =
     (case raised out of
        Some e \<Rightarrow> out
      | None \<Rightarrow>
          (case body of
             Inl e \<Rightarrow> out\<lparr> steps := steps out @ [s], raised := Some e \<rparr>
           | Inr es \<Rightarrow> out\<lparr> steps := steps out @ [s], effects := effects out @ es \<rparr>))"

definition init :: "Overlord \<Rightarrow> Overlord \<times> Outcome" where
  "init ov =
     (let out0 = fold (\<lambda>d. runStep (DirectiveInit d) (Inr [])) (directives ov) noOutcome;
          ov1 = registerObjectives ov;
          out1 = runStep RegisterObjectives (Inr []) out0;
          out2 = runStep RegisterCreepRequests (registerCreepRequests ov1) out1
      in (ov1, out2))"

definition run :: "Imports \<Rightarrow> Overlord \<Rightarrow> Outcome" where
  "run imp ov =
     (let out0 = fold (\<lambda>d. runStep (DirectiveRun d) (Inr [])) (directives ov) noOutcome;
          out1 = runStep HandleSafeMode (handleSafeMode ov) out0;
          out2 = runStep PlaceDirectives (placeDirectives imp ov) out1
      in out2)"

text \<open>
  \<open>allBefore P Q\<close>: in the list of calls, no call that satisfies \<open>P\<close> is made after a
  call that satisfies \<open>Q\<close>.
\<close>

fun allBefore :: "('a \<Rightarrow> bool) \<Rightarrow> ('a \<Rightarrow> bool) \<Rightarrow> 'a list \<Rightarrow> bool" where
  "allBefore P Q [] = True"
| "allBefore P Q (s # ss) = ((Q s \<longrightarrow> \<not> list_ex P ss) \<and> allBefore P Q ss)"

fun isDirectiveInit :: "Step \<Rightarrow> bool" where
  "isDirectiveInit (DirectiveInit d) = True"
| "isDirectiveInit s = False"

fun isDirectiveRun :: "Step \<Rightarrow> bool" where
  "isDirectiveRun (DirectiveRun d) = True"
| "isDirectiveRun s = False"

fun isRegistration :: "Step \<Rightarrow> bool" where
  "isRegistration RegisterObjectives = True"
| "isRegistration RegisterCreepRequests = True"
| "isRegistration s = False"

fun isPlacement :: "Step \<Rightarrow> bool" where
  "isPlacement PlaceDirectives = True"
| "isPlacement s = False"

text \<open>Reading the effects of a sub-step.\<close>

fun effectsOf :: "error + Effect list \<Rightarrow> Effect list" where
  "effectsOf (Inl e) = []"
| "effectsOf (Inr es) = es"

fun isGuardCreate :: "Effect \<Rightarrow> bool" where
  "isGuardCreate (DirectiveGuardCreate p) = True"
| "isGuardCreate e = False"

fun isEmergencyCreate :: "Effect \<Rightarrow> bool" where
  "isEmergencyCreate (DirectiveEmergencyCreate p) = True"
| "isEmergencyCreate e = False"

fun isWorkerRequest :: "Effect \<Rightarrow> bool" where
  "isWorkerRequest (HatcheryEnqueue pc) = (role pc = ''worker'')"
| "isWorkerRequest e = False"

definition emergencyCreates :: "Imports \<Rightarrow> Overlord \<Rightarrow> Effect list" where
  "emergencyCreates imp ov = filter isEmergencyCreate (effectsOf (placeDirectives imp ov))"

text \<open>
  The emergency directives created on a tick are those among the effects of \<open>run\<close>;
  over several ticks, those of each snapshot in order.
\<close>

definition tickEmergencyCreates :: "Imports \<Rightarrow> Overlord \<Rightarrow> Effect list" where
  "tickEmergencyCreates imp ov = filter isEmergencyCreate (effects (run imp ov))"

definition emergencyCreatesOver :: "Imports \<Rightarrow> Overlord list \<Rightarrow> Effect list" where
  "emergencyCreatesOver imp ticks = concat (map (tickEmergencyCreates imp) ticks)"

section \<open>The queen overlord\<close>














section \<open>Example snapshots\<close>

text \<open>
  Concrete colonies on which the theorems below are evaluated. The home room has a
  spawn position, one storage unit, a controller and a rampart that is nearly breached;
  the outpost is a room without a controller.
\<close>

definition exampleImports :: Imports where
  "exampleImports =
     \<lparr> EMERGENCY_ENERGY_THRESHOLD = 1300,
       DirectiveGuard_filter = (\<lambda>f. color f = 5 \<and> secondaryColor f = 3),
       DirectiveEmergency_filter = (\<lambda>f. color f = 7 \<and> secondaryColor f = 7) \<rparr>"

definition spawnPos :: RoomPosition where
  "spawnPos = \<lparr> pos_x = 25, pos_y = 25, roomName = ''W1N1'' \<rparr>"

definition raider :: HostileCreep where
  "raider = \<lparr> ownerUsername = ''Raider'',
              pos = \<lparr> pos_x = 3, pos_y = 40, roomName = ''W1N1'' \<rparr> \<rparr>"

definition invader :: HostileCreep where
  "invader = \<lparr> ownerUsername = ''Invader'',
               pos = \<lparr> pos_x = 10, pos_y = 2, roomName = ''W2N1'' \<rparr> \<rparr>"

definition rampart :: Structure where
  "rampart = \<lparr> ref = 31, structureType = ''rampart'', hits = 4000, hitsMax = 300000 \<rparr>"

definition wornContainer :: Structure where
  "wornContainer =
     \<lparr> ref = 32, structureType = ''container'', hits = 100000, hitsMax = 250000 \<rparr>"

definition usedContainer :: Structure where
  "usedContainer =
     \<lparr> ref = 33, structureType = ''container'', hits = 200000, hitsMax = 250000 \<rparr>"

definition scratchedTower :: Structure where
  "scratchedTower = \<lparr> ref = 34, structureType = ''tower'', hits = 2900, hitsMax = 3000 \<rparr>"

definition homeRoom :: Room where
  "homeRoom =
     \<lparr> energyAvailable = 300, storage = None, terminal = None, labs = [],
       storageUnits = [32], controller = Some 1, flags = [], hostiles = [],
       barriers = [rampart],
       repairables = [wornContainer, usedContainer, scratchedTower],
       droppedEnergy = [], structureSites = [], roadSites = [] \<rparr>"

definition outpostRoom :: Room where
  "outpostRoom =
     \<lparr> energyAvailable = 0, storage = None, terminal = None, labs = [],
       storageUnits = [], controller = None, flags = [], hostiles = [invader],
       barriers = [], repairables = [], droppedEnergy = [],
       structureSites = [], roadSites = [] \<rparr>"

definition guardFlag :: Flag where
  "guardFlag = \<lparr> flagName = ''guard_W2N1'', color = 5, secondaryColor = 3 \<rparr>"

definition emergencyFlag :: Flag where
  "emergencyFlag = \<lparr> flagName = ''emergency_W1N1'', color = 7, secondaryColor = 7 \<rparr>"

definition homeHatchery :: Hatchery where
  "homeHatchery =
     \<lparr> hatcheryPos = spawnPos, link = None, battery = None,
       getPrioritizedClosestRequest = (\<lambda>p q. None) \<rparr>"

definition colonyOf :: "Room \<Rightarrow> Colony" where
  "colonyOf r =
     Colony ''W1N1'' r [r, outpostRoom] [outpostRoom] [] False None (Some homeHatchery)
       (\<lambda>role. [])"

definition homeOverlord :: Overlord where
  "homeOverlord = (newOverlord (colonyOf homeRoom))\<lparr> directives := [''guard_W2N1''] \<rparr>"

definition besiegedOverlord :: Overlord where
  "besiegedOverlord = newOverlord (colonyOf (homeRoom\<lparr> hostiles := [raider] \<rparr>))"

definition flaggedOverlord :: Overlord where
  "flaggedOverlord = newOverlord (colonyOf (homeRoom\<lparr> flags := [emergencyFlag] \<rparr>))"

text \<open>The same colony after a guard marker has been placed in the outpost.\<close>

definition watchedOverlord :: Overlord where
  "watchedOverlord =
     newOverlord
       (Colony ''W1N1'' homeRoom [homeRoom] [outpostRoom\<lparr> flags := [guardFlag] \<rparr>] []
          False None (Some homeHatchery) (\<lambda>role. []))"

text \<open>
  The colony while it incubates a young colony: a player's creep has entered the room
  of the young colony, which has no guard marker.
\<close>

definition nurseryRoom :: Room where
  "nurseryRoom =
     \<lparr> energyAvailable = 0, storage = None, terminal = None, labs = [],
       storageUnits = [], controller = Some 2, flags = [emergencyFlag],
       hostiles = [raider, invader], barriers = [], repairables = [],
       droppedEnergy = [], structureSites = [], roadSites = [] \<rparr>"

definition nursery :: Colony where
  "nursery =
     Colony ''W3N3'' nurseryRoom [nurseryRoom] [] [] False (Some (colonyOf homeRoom)) None
       (\<lambda>role. [])"

definition incubatingOverlord :: Overlord where
  "incubatingOverlord =
     newOverlord
       (Colony ''W1N1'' homeRoom [homeRoom, outpostRoom] [outpostRoom] [nursery]
          True None (Some homeHatchery) (\<lambda>role. []))"

text \<open>
  Two snapshots in which the colony room has no controller object while a player's
  creep stands at a nearly breached rampart.
\<close>

definition strandedOverlord :: Overlord where
  "strandedOverlord =
     newOverlord (colonyOf (homeRoom\<lparr> controller := None, hostiles := [raider] \<rparr>))"

definition orphanedOverlord :: Overlord where
  "orphanedOverlord =
     newOverlord
       (Colony ''W1N1'' (homeRoom\<lparr> controller := None, hostiles := [raider, invader] \<rparr>)
          [] [] [] False None None (\<lambda>role. []))"

text \<open>A colony without hatchery and without controller, at peace.\<close>

definition bareOverlord :: Overlord where
  "bareOverlord =
     newOverlord
       (Colony ''W1N1'' (homeRoom\<lparr> controller := None \<rparr>)
          [] [outpostRoom] [] False None None (\<lambda>role. []))"

text \<open>
  Creeps asking for tasks, and a distance under which the worn container is 3 away from
  every creep, every other structure 7 and everything else 10. In \<open>requestingOverlord\<close>
  the worn container has also requested an energy refill.
\<close>

definition exampleDistance :: "ICreep \<Rightarrow> Target \<Rightarrow> nat" where
  "exampleDistance w t =
     (case t of StructureTarget s \<Rightarrow> (if ref s = 32 then 3 else 7) | _ \<Rightarrow> 10)"

definition hauler :: ICreep where
  "hauler = \<lparr> creepRef = 101,
              capabilities = [''collectEnergyMiningSite'', ''depositContainer''] \<rparr>"

definition repairer :: ICreep where
  "repairer = \<lparr> creepRef = 102, capabilities = [''build'', ''repair'', ''upgrade''] \<rparr>"

definition mason :: ICreep where
  "mason = \<lparr> creepRef = 103, capabilities = [''repair'', ''fortify''] \<rparr>"

definition requestingOverlord :: Overlord where
  "requestingOverlord =
     homeOverlord\<lparr> resourceRequests :=
       \<lparr> resourceIn_haul = [\<lparr> requester = wornContainer, resourceType = ''energy'' \<rparr>],
         resourceOut_haul = [] \<rparr> \<rparr>"






section \<open>Evaluation of the error plumbing\<close>

lemma deref_Some [simp]: "deref (Some v) = Inr v"
  by (simp add: deref_def)

lemma deref_None [simp]: "deref None = Inl TypeError"
  by (simp add: deref_def)

lemma andThen_Inr [simp]: "andThen (Inr v) f = f v"
  by (simp add: andThen_def)

lemma andThen_Inl [simp]: "andThen (Inl e) f = Inl e"
  by (simp add: andThen_def)

lemmas example_defs =
  exampleImports_def spawnPos_def raider_def invader_def rampart_def wornContainer_def
  usedContainer_def scratchedTower_def homeRoom_def outpostRoom_def guardFlag_def
  emergencyFlag_def homeHatchery_def colonyOf_def homeOverlord_def besiegedOverlord_def
  flaggedOverlord_def strandedOverlord_def orphanedOverlord_def bareOverlord_def
  newOverlord_def hauler_def repairer_def mason_def requestingOverlord_def
  watchedOverlord_def nurseryRoom_def nursery_def incubatingOverlord_def

section \<open>Spawn requests\<close>

lemma mineralSupplierRequests_total:
  "hatchery (colony ov) \<noteq> None \<Longrightarrow> \<exists>es. mineralSupplierRequests ov = Inr es \<and> \<not> list_ex isWorkerRequest es"
  by (auto simp: mineralSupplierRequests_def Let_def)

lemma workerRequests_cases:
  "hatchery (colony ov) \<noteq> None \<Longrightarrow>
   workerRequests ov =
     (if length (getCreepsByRole (colony ov) ''worker'') < numWorkersNeeded (colony ov)
         \<and> storageUnits (room (colony ov)) \<noteq> []
      then Inr [HatcheryEnqueue \<lparr> role = ''worker'',
                                 assignment = controller (room (colony ov)),
                                 patternRepetitionLimit =
                                   workerPatternRepetitionLimit (settings ov) \<rparr>]
      else Inr [])"
  by (auto simp: workerRequests_def Let_def)

lemma registerCreepRequests_total: "\<exists>es. registerCreepRequests ov = Inr es"
proof (cases "hatchery (colony ov)")
  case None
  then show ?thesis by (simp add: registerCreepRequests_def)
next
  case (Some h)
  then have h: "hatchery (colony ov) \<noteq> None" by simp
  obtain es1 where "mineralSupplierRequests ov = Inr es1"
    using mineralSupplierRequests_total [OF h] by blast
  then show ?thesis
    using workerRequests_cases [OF h] h by (simp add: registerCreepRequests_def)
qed

lemma registerCreepRequests_worker:
  "list_ex isWorkerRequest (effectsOf (registerCreepRequests ov)) \<longleftrightarrow>
     hatchery (colony ov) \<noteq> None \<and> storageUnits (room (colony ov)) \<noteq> [] \<and>
     length (getCreepsByRole (colony ov) ''worker'') < numWorkersNeeded (colony ov)"
proof (cases "hatchery (colony ov)")
  case None
  then show ?thesis by (simp add: registerCreepRequests_def)
next
  case (Some h)
  then have h: "hatchery (colony ov) \<noteq> None" by simp
  obtain es1 where "mineralSupplierRequests ov = Inr es1" "\<not> list_ex isWorkerRequest es1"
    using mineralSupplierRequests_total [OF h] by blast
  then show ?thesis
    using workerRequests_cases [OF h] h by (auto simp: registerCreepRequests_def)
qed

lemma fold_hooks:
  "raised out = None \<Longrightarrow>
   fold (\<lambda>d. runStep (k d) (Inr [])) ds out =
     out\<lparr> steps := steps out @ map k ds \<rparr>"
  by (induction ds arbitrary: out) (auto simp: runStep_def)

lemma colony_registerObjectives [simp]: "colony (registerObjectives ov) = colony ov"
  by (simp add: registerObjectives_def)

lemma settings_registerObjectives [simp]: "settings (registerObjectives ov) = settings ov"
  by (simp add: registerObjectives_def)

lemma registerCreepRequests_registerObjectives [simp]:
  "registerCreepRequests (registerObjectives ov) = registerCreepRequests ov"
  by (simp add: registerCreepRequests_def mineralSupplierRequests_def workerRequests_def
        cong: if_cong)

lemma init_effects: "effects (snd (init ov)) = effectsOf (registerCreepRequests ov)"
proof -
  obtain es where "registerCreepRequests ov = Inr es"
    using registerCreepRequests_total by blast
  then show ?thesis
    by (simp add: init_def Let_def fold_hooks noOutcome_def runStep_def)
qed

text \<open>
  C7. During the init phase a worker spawn request is enqueued to the hatchery exactly
  when the hatchery exists, the room has at least one storage unit, and the number of
  worker creeps is below the needed count: 3 when the colony has an incubator, 1
  otherwise.
\<close>

theorem worker_request_iff:
  "list_ex isWorkerRequest (effects (snd (init ov))) \<longleftrightarrow>
     hatchery (colony ov) \<noteq> None \<and> storageUnits (room (colony ov)) \<noteq> [] \<and>
     length (getCreepsByRole (colony ov) ''worker'')
       < (if incubator (colony ov) \<noteq> None then 3 else 1)"
  using registerCreepRequests_worker [of ov]
  by (simp add: init_effects numWorkersNeeded_def)


theorem worker_request_iff_witness:
  "list_ex isWorkerRequest (effects (snd (init homeOverlord))) \<and>
   \<not> list_ex isWorkerRequest (effects (snd (init orphanedOverlord)))"
  using worker_request_iff [of homeOverlord] worker_request_iff [of orphanedOverlord]
  by (simp add: example_defs)

section \<open>The safe-mode trigger\<close>

lemma handleSafeMode_trigger:
  "(length (criticalBarriers ov) > 0 \<and> length (nonInvaderHostiles ov) > 0) \<longleftrightarrow>
   (\<exists>b \<in> set (barriers (room (colony ov))). hits b < 5000) \<and>
   (\<exists>h \<in> set (hostiles (room (colony ov))). ownerUsername h \<noteq> ''Invader'')"
  by (auto simp: criticalBarriers_def nonInvaderHostiles_def filter_empty_conv)

text \<open>
  The colony room of \<open>strandedOverlord\<close> has a rampart below 5000 hits, a hostile
  creep of another player and no incubator, but no controller object: the call of
  \<^verbatim>\<open>activateSafeMode\<close> reads a property of \<^verbatim>\<open>undefined\<close> and safe mode is not
  activated.
\<close>

theorem safe_mode_counterexample:
  "hits rampart < 5000 \<and> rampart \<in> set (barriers (room (colony strandedOverlord))) \<and>
   ownerUsername raider \<noteq> ''Invader'' \<and> raider \<in> set (hostiles (room (colony strandedOverlord))) \<and>
   incubator (colony strandedOverlord) = None \<and>
   handleSafeMode strandedOverlord = Inl TypeError"
  by (simp add: example_defs handleSafeMode_def criticalBarriers_def nonInvaderHostiles_def)

text \<open>
  C6, amended. When the colony room has a controller, safe mode is activated on it
  exactly when the room contains a barrier below 5000 hits and a hostile creep whose
  owner is not the NPC invader, and the colony has no incubator; otherwise the sub-step
  has no effect.
\<close>

theorem safe_mode_iff:
  assumes "controller (room (colony ov)) = Some ctl"
  shows "handleSafeMode ov =
           (if (\<exists>b \<in> set (barriers (room (colony ov))). hits b < 5000) \<and>
               (\<exists>h \<in> set (hostiles (room (colony ov))). ownerUsername h \<noteq> ''Invader'') \<and>
               incubator (colony ov) = None
            then Inr [ActivateSafeMode ctl] else Inr [])"
  using assms handleSafeMode_trigger [of ov]
  by (auto simp: handleSafeMode_def)

theorem safe_mode_iff_witness:
  "controller (room (colony besiegedOverlord)) = Some 1 \<and>
   handleSafeMode besiegedOverlord = Inr [ActivateSafeMode 1] \<and>
   controller (room (colony homeOverlord)) = Some 1 \<and>
   handleSafeMode homeOverlord = Inr []"
proof -
  have c1: "controller (room (colony besiegedOverlord)) = Some 1"
    by (simp add: example_defs)
  have c2: "controller (room (colony homeOverlord)) = Some 1"
    by (simp add: example_defs)
  show ?thesis
    using safe_mode_iff [OF c1] safe_mode_iff [OF c2] c1 c2
    by (simp add: example_defs)
qed

section \<open>Directive placement\<close>

lemma headOf_Cons: "xs \<noteq> [] \<Longrightarrow> headOf xs = Some (hd xs)"
  by (cases xs) (simp_all add: headOf_def)

lemma placeGuard_cases:
  "placeGuard imp r =
     (if hostiles r \<noteq> [] \<and> \<not> list_ex (DirectiveGuard_filter imp) (flags r)
      then Inr [DirectiveGuardCreate (pos (hd (hostiles r)))] else Inr [])"
  by (auto simp: placeGuard_def Let_def headOf_Cons filter_empty_conv list_ex_iff)

lemma placeGuards_concat:
  "placeGuards imp rs = Inr (concat (map (\<lambda>r. effectsOf (placeGuard imp r)) rs))"
  by (induction rs) (simp_all add: placeGuard_cases)

lemma guards_only: "filter isEmergencyCreate (effectsOf (placeGuard imp r)) = []"
  by (simp add: placeGuard_cases)

lemma guards_all: "filter isGuardCreate (effectsOf (placeGuard imp r)) = effectsOf (placeGuard imp r)"
  by (simp add: placeGuard_cases)

lemma filter_concat_none:
  "(\<And>x. x \<in> set xs \<Longrightarrow> filter P (f x) = []) \<Longrightarrow> filter P (concat (map f xs)) = []"
  by (induction xs) simp_all

lemma filter_concat_all:
  "(\<And>x. x \<in> set xs \<Longrightarrow> filter P (f x) = f x) \<Longrightarrow>
   filter P (concat (map f xs)) = concat (map f xs)"
  by (induction xs) simp_all

lemma placeEmergency_cases:
  "placeEmergency imp ov =
     (case hatchery (colony ov) of
        None \<Rightarrow> Inr []
      | Some h \<Rightarrow>
          if \<not> isIncubating (colony ov) \<and> \<not> roomHasEnergy imp ov
             \<and> \<not> roomHasEnergySupply imp ov \<and> \<not> roomHasMiners ov
             \<and> \<not> list_ex (DirectiveEmergency_filter imp) (flags (room (colony ov)))
          then Inr [DirectiveEmergencyCreate (hatcheryPos h)] else Inr [])"
  by (auto simp: placeEmergency_def emergencyFlags_def filter_empty_conv list_ex_iff
           split: option.splits)

lemma placeDirectives_eq:
  "placeDirectives imp ov =
     Inr (concat (map (\<lambda>r. effectsOf (placeGuard imp r)) (roomsToCheck (colony ov)))
          @ effectsOf (placeEmergency imp ov))"
  by (simp add: placeDirectives_def placeGuards_concat placeEmergency_cases
           split: option.splits)

lemma emergencyCreates_eq:
  "emergencyCreates imp ov = effectsOf (placeEmergency imp ov)"
  by (simp add: emergencyCreates_def placeDirectives_eq filter_concat_none guards_only
        placeEmergency_cases split: option.splits)

lemma guardCreates_eq:
  "filter isGuardCreate (effectsOf (placeDirectives imp ov)) =
     concat (map (\<lambda>r. effectsOf (placeGuard imp r)) (roomsToCheck (colony ov)))"
  by (simp add: placeDirectives_eq filter_concat_all guards_all
        placeEmergency_cases split: option.splits)

lemma handleSafeMode_effects:
  "handleSafeMode ov = Inr es \<Longrightarrow> filter isEmergencyCreate es = []"
  by (auto simp: handleSafeMode_def andThen_def deref_def split: if_splits option.splits)

lemma run_raised:
  "raised (run imp ov) = (case handleSafeMode ov of Inl e \<Rightarrow> Some e | Inr es \<Rightarrow> None)"
  by (simp add: run_def Let_def fold_hooks noOutcome_def runStep_def placeDirectives_eq
        split: sum.splits)

lemma run_effects:
  "effects (run imp ov) =
     (case handleSafeMode ov of
        Inl e \<Rightarrow> []
      | Inr es \<Rightarrow> es @ effectsOf (placeDirectives imp ov))"
  by (simp add: run_def Let_def fold_hooks noOutcome_def runStep_def placeDirectives_eq
        split: sum.splits)

lemma tickEmergencyCreates_eq:
  "tickEmergencyCreates imp ov =
     (case handleSafeMode ov of Inl e \<Rightarrow> [] | Inr es \<Rightarrow> emergencyCreates imp ov)"
  by (auto simp: tickEmergencyCreates_def run_effects emergencyCreates_def
        handleSafeMode_effects split: sum.splits)

lemma tickEmergencyCreates_flagged:
  "list_ex (DirectiveEmergency_filter imp) (flags (room (colony ov)))
     \<Longrightarrow> tickEmergencyCreates imp ov = []"
  by (simp add: tickEmergencyCreates_eq emergencyCreates_eq placeEmergency_cases
        split: sum.splits option.splits)

lemma emergencyCreatesOver_flagged:
  "\<forall>t \<in> set later. list_ex (DirectiveEmergency_filter imp) (flags (room (colony t))) \<Longrightarrow>
   emergencyCreatesOver imp later = []"
  by (induction later)
     (simp_all add: emergencyCreatesOver_def tickEmergencyCreates_flagged)

lemma roomsToCheck_iff:
  "r \<in> set (roomsToCheck (colony ov)) \<longleftrightarrow>
     r \<in> set (outposts (colony ov))
       \<or> (\<exists>col \<in> set (incubatingColonies (colony ov)). r \<in> set (rooms col))"
  by (auto simp: roomsToCheck_def)

text \<open>
  C5. For every room that is an outpost of the colony or a room of a colony it
  incubates, \<open>placeDirectives\<close> creates a guard directive, at the position of the first
  hostile of the room, exactly when the room contains a hostile and none of its flags is
  a guard marker. The guard directives created by \<open>placeDirectives\<close> are those of the
  outposts followed by those of the rooms of the incubated colonies, and no others.
\<close>

theorem guard_directive_iff:
  assumes "r \<in> set (outposts (colony ov))
             \<or> (\<exists>col \<in> set (incubatingColonies (colony ov)). r \<in> set (rooms col))"
  shows "(effectsOf (placeGuard imp r) = [DirectiveGuardCreate (pos (hd (hostiles r)))]
            \<longleftrightarrow> hostiles r \<noteq> [] \<and> \<not> list_ex (DirectiveGuard_filter imp) (flags r)) \<and>
         (effectsOf (placeGuard imp r) = []
            \<longleftrightarrow> \<not> (hostiles r \<noteq> [] \<and> \<not> list_ex (DirectiveGuard_filter imp) (flags r))) \<and>
         set (effectsOf (placeGuard imp r))
            \<subseteq> set (filter isGuardCreate (effectsOf (placeDirectives imp ov))) \<and>
         filter isGuardCreate (effectsOf (placeDirectives imp ov)) =
            concat (map (\<lambda>r. effectsOf (placeGuard imp r))
              (outposts (colony ov) @ concat (map rooms (incubatingColonies (colony ov)))))"
proof -
  have m: "r \<in> set (roomsToCheck (colony ov))"
    using assms by (simp add: roomsToCheck_iff)
  have e: "filter isGuardCreate (effectsOf (placeDirectives imp ov)) =
             concat (map (\<lambda>r. effectsOf (placeGuard imp r))
               (outposts (colony ov) @ concat (map rooms (incubatingColonies (colony ov)))))"
    using guardCreates_eq [of imp ov] by (simp add: roomsToCheck_def)
  have "set (effectsOf (placeGuard imp r))
          \<subseteq> set (filter isGuardCreate (effectsOf (placeDirectives imp ov)))"
    using m by (auto simp: guardCreates_eq)
  then show ?thesis
    using e by (auto simp: placeGuard_cases)
qed

theorem guard_directive_iff_witness:
  "nurseryRoom \<in> set (rooms nursery) \<and>
   nursery \<in> set (incubatingColonies (colony incubatingOverlord)) \<and>
   outpostRoom \<in> set (outposts (colony incubatingOverlord)) \<and>
   filter isGuardCreate (effectsOf (placeDirectives exampleImports incubatingOverlord)) =
     [DirectiveGuardCreate (pos invader), DirectiveGuardCreate (pos raider)] \<and>
   filter isGuardCreate (effectsOf (placeDirectives exampleImports watchedOverlord)) = []"
proof -
  let ?watched = "outpostRoom\<lparr> flags := [guardFlag] \<rparr>"
  have n: "nurseryRoom \<in> set (rooms nursery)"
          "nursery \<in> set (incubatingColonies (colony incubatingOverlord))"
    by (simp_all add: nursery_def incubatingOverlord_def newOverlord_def)
  then have nm: "nurseryRoom \<in> set (outposts (colony incubatingOverlord))
              \<or> (\<exists>col \<in> set (incubatingColonies (colony incubatingOverlord)).
                    nurseryRoom \<in> set (rooms col))"
    by blast
  have o: "outpostRoom \<in> set (outposts (colony incubatingOverlord))"
    by (simp add: incubatingOverlord_def newOverlord_def)
  then have om: "outpostRoom \<in> set (outposts (colony incubatingOverlord))
              \<or> (\<exists>col \<in> set (incubatingColonies (colony incubatingOverlord)).
                    outpostRoom \<in> set (rooms col))"
    by blast
  have wm: "?watched \<in> set (outposts (colony watchedOverlord))
              \<or> (\<exists>col \<in> set (incubatingColonies (colony watchedOverlord)).
                    ?watched \<in> set (rooms col))"
    by (simp add: watchedOverlord_def newOverlord_def)
  have rs: "outposts (colony incubatingOverlord)
              @ concat (map rooms (incubatingColonies (colony incubatingOverlord)))
              = [outpostRoom, nurseryRoom]"
    by (simp add: incubatingOverlord_def newOverlord_def nursery_def)
  have wrs: "outposts (colony watchedOverlord)
               @ concat (map rooms (incubatingColonies (colony watchedOverlord)))
               = [?watched]"
    by (simp add: watchedOverlord_def newOverlord_def)
  have h: "hostiles outpostRoom \<noteq> [] \<and>
           \<not> list_ex (DirectiveGuard_filter exampleImports) (flags outpostRoom)"
          "hostiles nurseryRoom \<noteq> [] \<and>
           \<not> list_ex (DirectiveGuard_filter exampleImports) (flags nurseryRoom)"
          "list_ex (DirectiveGuard_filter exampleImports) (flags ?watched)"
    by (simp_all add: outpostRoom_def nurseryRoom_def exampleImports_def guardFlag_def
          emergencyFlag_def)
  have hd: "hd (hostiles outpostRoom) = invader" "hd (hostiles nurseryRoom) = raider"
    by (simp_all add: outpostRoom_def nurseryRoom_def)
  show ?thesis
    using guard_directive_iff [OF nm, of exampleImports]
          guard_directive_iff [OF om, of exampleImports]
          guard_directive_iff [OF wm, of exampleImports] n o h hd
    by (simp add: rs wrs)
qed

text \<open>
  In \<open>strandedOverlord\<close> the colony is not incubating, has a hatchery, 300 spawn
  energy, no storage, no miner and no emergency marker; a player's creep stands at its
  nearly breached rampart and the room has no controller object. \<open>run\<close> ends in the
  safe-mode step and the placement of directives is not reached.
\<close>

theorem emergency_tick_counterexample:
  "\<not> isIncubating (colony strandedOverlord) \<and>
   hatchery (colony strandedOverlord) = Some homeHatchery \<and>
   energyAvailable (room (colony strandedOverlord))
     < EMERGENCY_ENERGY_THRESHOLD exampleImports \<and>
   storage (room (colony strandedOverlord)) = None \<and>
   getCreepsByRole (colony strandedOverlord) ''miner'' = [] \<and>
   flags (room (colony strandedOverlord)) = [] \<and>
   tickEmergencyCreates exampleImports strandedOverlord = [] \<and>
   raised (run exampleImports strandedOverlord) = Some TypeError"
proof -
  have s: "handleSafeMode strandedOverlord = Inl TypeError"
    by (simp add: example_defs handleSafeMode_def criticalBarriers_def
          nonInvaderHostiles_def)
  show ?thesis
    by (simp add: tickEmergencyCreates_eq run_raised s) (simp add: example_defs)
qed

text \<open>
  C2, amended. Take a tick on which the colony is not incubating, a hatchery exists, the
  spawn energy is below the emergency threshold, there is no storage above the threshold
  with a supplier creep, and there is no miner. If the room has an emergency marker, no
  emergency directive is created on that tick. If it has none, and the safe-mode step
  does not fail (the room has a controller, or the safe-mode trigger does not fire), one
  emergency directive is created, at the hatchery. Over that tick and any later ticks on
  which the marker exists, the directive is created once at most.
\<close>

theorem emergency_directive_once:
  assumes "\<not> isIncubating (colony ov)"
    and "hatchery (colony ov) = Some h"
    and "energyAvailable (room (colony ov)) < EMERGENCY_ENERGY_THRESHOLD imp"
    and "\<forall>s. storage (room (colony ov)) = Some s \<longrightarrow>
           \<not> (energy s > EMERGENCY_ENERGY_THRESHOLD imp
              \<and> getCreepsByRole (colony ov) ''supplier'' \<noteq> [])"
    and "getCreepsByRole (colony ov) ''miner'' = []"
    and "\<forall>t \<in> set later. list_ex (DirectiveEmergency_filter imp) (flags (room (colony t)))"
  shows "(list_ex (DirectiveEmergency_filter imp) (flags (room (colony ov)))
            \<longrightarrow> emergencyCreatesOver imp (ov # later) = []) \<and>
         (\<not> list_ex (DirectiveEmergency_filter imp) (flags (room (colony ov))) \<and>
          (controller (room (colony ov)) \<noteq> None
             \<or> \<not> ((\<exists>b \<in> set (barriers (room (colony ov))). hits b < 5000) \<and>
                   (\<exists>c \<in> set (hostiles (room (colony ov))). ownerUsername c \<noteq> ''Invader'') \<and>
                   incubator (colony ov) = None))
            \<longrightarrow> tickEmergencyCreates imp ov = [DirectiveEmergencyCreate (hatcheryPos h)] \<and>
                emergencyCreatesOver imp (ov # later)
                  = [DirectiveEmergencyCreate (hatcheryPos h)])"
proof -
  have nosupply: "\<not> roomHasEnergySupply imp ov"
    using assms(4) by (auto simp: roomHasEnergySupply_def split: option.splits)
  have noenergy: "\<not> roomHasEnergy imp ov"
    using assms(3) by (simp add: roomHasEnergy_def)
  have nominers: "\<not> roomHasMiners ov"
    using assms(5) by (simp add: roomHasMiners_def)
  have over: "emergencyCreatesOver imp (ov # later) = tickEmergencyCreates imp ov"
    using emergencyCreatesOver_flagged [OF assms(6)]
    by (simp add: emergencyCreatesOver_def)
  have flagged: "list_ex (DirectiveEmergency_filter imp) (flags (room (colony ov)))
                   \<longrightarrow> tickEmergencyCreates imp ov = []"
    using tickEmergencyCreates_flagged by blast
  have safe: "\<exists>es. handleSafeMode ov = Inr es"
    if "controller (room (colony ov)) \<noteq> None
        \<or> \<not> ((\<exists>b \<in> set (barriers (room (colony ov))). hits b < 5000) \<and>
              (\<exists>c \<in> set (hostiles (room (colony ov))). ownerUsername c \<noteq> ''Invader'') \<and>
              incubator (colony ov) = None)"
    using that handleSafeMode_trigger [of ov] by (auto simp: handleSafeMode_def)
  have created: "tickEmergencyCreates imp ov = [DirectiveEmergencyCreate (hatcheryPos h)]"
    if nf: "\<not> list_ex (DirectiveEmergency_filter imp) (flags (room (colony ov)))"
      and st: "controller (room (colony ov)) \<noteq> None
        \<or> \<not> ((\<exists>b \<in> set (barriers (room (colony ov))). hits b < 5000) \<and>
              (\<exists>c \<in> set (hostiles (room (colony ov))). ownerUsername c \<noteq> ''Invader'') \<and>
              incubator (colony ov) = None)"
  proof -
    obtain es where "handleSafeMode ov = Inr es" using safe [OF st] by blast
    then show ?thesis
      using nf nosupply noenergy nominers assms(1,2)
      by (simp add: tickEmergencyCreates_eq emergencyCreates_eq placeEmergency_cases)
  qed
  show ?thesis
    using over flagged created by simp
qed

theorem emergency_directive_once_witness:
  "emergencyCreatesOver exampleImports [homeOverlord, flaggedOverlord, flaggedOverlord]
     = [DirectiveEmergencyCreate spawnPos] \<and>
   emergencyCreatesOver exampleImports [flaggedOverlord, flaggedOverlord] = []"
proof -
  have a: "\<not> isIncubating (colony homeOverlord)"
          "\<not> isIncubating (colony flaggedOverlord)"
          "hatchery (colony homeOverlord) = Some homeHatchery"
          "hatchery (colony flaggedOverlord) = Some homeHatchery"
    by (simp_all add: homeOverlord_def flaggedOverlord_def newOverlord_def colonyOf_def)
  have b: "energyAvailable (room (colony homeOverlord))
             < EMERGENCY_ENERGY_THRESHOLD exampleImports"
          "energyAvailable (room (colony flaggedOverlord))
             < EMERGENCY_ENERGY_THRESHOLD exampleImports"
    by (simp_all add: example_defs)
  have c: "\<forall>s. storage (room (colony homeOverlord)) = Some s \<longrightarrow>
             \<not> (energy s > EMERGENCY_ENERGY_THRESHOLD exampleImports
                \<and> getCreepsByRole (colony homeOverlord) ''supplier'' \<noteq> [])"
          "\<forall>s. storage (room (colony flaggedOverlord)) = Some s \<longrightarrow>
             \<not> (energy s > EMERGENCY_ENERGY_THRESHOLD exampleImports
                \<and> getCreepsByRole (colony flaggedOverlord) ''supplier'' \<noteq> [])"
    by (simp_all add: example_defs)
  have d: "getCreepsByRole (colony homeOverlord) ''miner'' = []"
          "getCreepsByRole (colony flaggedOverlord) ''miner'' = []"
    by (simp_all add: example_defs)
  have e: "\<forall>t \<in> set [flaggedOverlord, flaggedOverlord].
             list_ex (DirectiveEmergency_filter exampleImports) (flags (room (colony t)))"
          "\<forall>t \<in> set [flaggedOverlord].
             list_ex (DirectiveEmergency_filter exampleImports) (flags (room (colony t)))"
    by (simp_all add: example_defs)
  have f: "\<not> list_ex (DirectiveEmergency_filter exampleImports)
               (flags (room (colony homeOverlord)))"
          "list_ex (DirectiveEmergency_filter exampleImports)
               (flags (room (colony flaggedOverlord)))"
    by (simp_all add: example_defs)
  have g: "controller (room (colony homeOverlord)) \<noteq> None"
    by (simp add: example_defs)
  show ?thesis
    using emergency_directive_once [OF a(1) a(3) b(1) c(1) d(1) e(1)]
          emergency_directive_once [OF a(2) a(4) b(2) c(2) d(2) e(2)] f g
    by (simp add: homeHatchery_def)
qed

section \<open>Absent references\<close>

lemma placeDirectives_total: "\<exists>es. placeDirectives imp ov = Inr es"
  by (simp add: placeDirectives_eq)

text \<open>
  The colony of \<open>orphanedOverlord\<close> has neither hatchery nor controller; a player's
  creep stands at its nearly breached rampart. \<open>handleSafeMode\<close> reads
  \<^verbatim>\<open>activateSafeMode\<close> of the missing controller and raises.
\<close>

theorem absent_reference_counterexample:
  "controller (room (colony orphanedOverlord)) = None \<and>
   hatchery (colony orphanedOverlord) = None \<and>
   handleSafeMode orphanedOverlord = Inl TypeError"
  by (simp add: example_defs handleSafeMode_def criticalBarriers_def nonInvaderHostiles_def)

text \<open>
  C3, amended. \<open>registerCreepRequests\<close> and \<open>placeDirectives\<close> return normally on
  every snapshot; without a hatchery the first enqueues nothing and the second creates
  no emergency directive. \<open>handleSafeMode\<close> returns normally whenever the controller
  exists or the safe-mode trigger does not fire.
\<close>

theorem substeps_degrade:
  "(\<exists>es. registerCreepRequests ov = Inr es) \<and>
   (hatchery (colony ov) = None \<longrightarrow> registerCreepRequests ov = Inr []) \<and>
   (\<exists>es. placeDirectives imp ov = Inr es) \<and>
   (hatchery (colony ov) = None \<longrightarrow> emergencyCreates imp ov = []) \<and>
   (controller (room (colony ov)) \<noteq> None
      \<or> \<not> ((\<exists>b \<in> set (barriers (room (colony ov))). hits b < 5000) \<and>
            (\<exists>h \<in> set (hostiles (room (colony ov))). ownerUsername h \<noteq> ''Invader'') \<and>
            incubator (colony ov) = None)
      \<longrightarrow> (\<exists>es. handleSafeMode ov = Inr es))"
proof -
  have "\<exists>es. handleSafeMode ov = Inr es"
    if "controller (room (colony ov)) \<noteq> None
        \<or> \<not> ((\<exists>b \<in> set (barriers (room (colony ov))). hits b < 5000) \<and>
            (\<exists>h \<in> set (hostiles (room (colony ov))). ownerUsername h \<noteq> ''Invader'') \<and>
            incubator (colony ov) = None)"
    using that handleSafeMode_trigger [of ov]
    by (auto simp: handleSafeMode_def)
  moreover have "hatchery (colony ov) = None \<longrightarrow> registerCreepRequests ov = Inr []"
    by (simp add: registerCreepRequests_def)
  moreover have "hatchery (colony ov) = None \<longrightarrow> emergencyCreates imp ov = []"
    by (simp add: emergencyCreates_eq placeEmergency_cases)
  ultimately show ?thesis
    using registerCreepRequests_total [of ov] placeDirectives_total [of imp ov]
    by blast
qed

theorem substeps_degrade_witness:
  "hatchery (colony bareOverlord) = None \<and> controller (room (colony bareOverlord)) = None \<and>
   registerCreepRequests bareOverlord = Inr [] \<and>
   placeDirectives exampleImports bareOverlord = Inr [DirectiveGuardCreate (pos invader)] \<and>
   handleSafeMode bareOverlord = Inr []"
proof -
  have h: "hatchery (colony bareOverlord) = None"
          "controller (room (colony bareOverlord)) = None"
    by (simp_all add: example_defs)
  have quiet: "\<not> (\<exists>h \<in> set (hostiles (room (colony bareOverlord))).
                     ownerUsername h \<noteq> ''Invader'')"
    by (simp add: example_defs)
  have p: "placeDirectives exampleImports bareOverlord
             = Inr [DirectiveGuardCreate (pos invader)]"
    by (simp add: placeDirectives_eq placeGuard_cases placeEmergency_cases roomsToCheck_def
          bareOverlord_def newOverlord_def outpostRoom_def)
  have s: "handleSafeMode bareOverlord = Inr []"
    by (simp add: handleSafeMode_def nonInvaderHostiles_def example_defs)
  show ?thesis
    using substeps_degrade [of bareOverlord exampleImports] h quiet p s by simp
qed

section \<open>Order of the calls\<close>

lemma allBefore_append:
  "allBefore P Q (xs @ ys) \<longleftrightarrow>
     allBefore P Q xs \<and> allBefore P Q ys \<and> (list_ex Q xs \<longrightarrow> \<not> list_ex P ys)"
  by (induction xs) (auto simp: list_ex_iff)

lemma allBefore_hooks:
  "(\<And>d. \<not> Q (k d)) \<Longrightarrow> allBefore P Q (map k ds)"
  by (induction ds) simp_all

lemma list_ex_map_never: "(\<And>d. \<not> Q (k d)) \<Longrightarrow> \<not> list_ex Q (map k ds)"
  by (simp add: list_ex_iff)

lemma init_steps:
  "steps (snd (init ov)) =
     map DirectiveInit (directives ov) @ [RegisterObjectives, RegisterCreepRequests]"
proof -
  obtain es where "registerCreepRequests ov = Inr es"
    using registerCreepRequests_total by blast
  then show ?thesis
    by (simp add: init_def Let_def fold_hooks noOutcome_def runStep_def)
qed

lemma run_steps:
  "steps (run imp ov) =
     map DirectiveRun (directives ov) @
       (case handleSafeMode ov of Inl e \<Rightarrow> [HandleSafeMode]
        | Inr es \<Rightarrow> [HandleSafeMode, PlaceDirectives])"
  by (simp add: run_def Let_def fold_hooks noOutcome_def runStep_def placeDirectives_eq
        split: sum.splits)

text \<open>
  With one directive, \<open>run\<close> calls its run hook, then \<open>handleSafeMode\<close>, then
  \<open>placeDirectives\<close>: the placement step is not before the run hook.
\<close>

theorem hook_order_counterexample:
  "\<not> allBefore isPlacement isDirectiveRun (steps (run exampleImports homeOverlord))"
  by (simp add: run_steps handleSafeMode_def nonInvaderHostiles_def example_defs)

text \<open>
  C8, amended. In \<open>init\<close> the init hooks of all directives are called first, before
  the registration of objectives and of creep requests. In \<open>run\<close> the run hooks of all
  directives are called first, before the safe-mode step and before the placement of
  directives.
\<close>

theorem hook_order:
  "allBefore isDirectiveInit isRegistration (steps (snd (init ov))) \<and>
   allBefore isDirectiveRun (\<lambda>s. s = HandleSafeMode \<or> isPlacement s) (steps (run imp ov)) \<and>
   take (length (directives ov)) (steps (snd (init ov))) = map DirectiveInit (directives ov) \<and>
   take (length (directives ov)) (steps (run imp ov)) = map DirectiveRun (directives ov) \<and>
   list_ex isRegistration (steps (snd (init ov))) \<and>
   (raised (run imp ov) = None \<longrightarrow> list_ex isPlacement (steps (run imp ov)))"
proof -
  have i: "allBefore isDirectiveInit isRegistration (steps (snd (init ov)))"
    by (simp add: init_steps allBefore_append allBefore_hooks list_ex_map_never)
  have r: "allBefore isDirectiveRun (\<lambda>s. s = HandleSafeMode \<or> isPlacement s)
             (steps (run imp ov))"
    by (simp add: run_steps allBefore_append allBefore_hooks list_ex_map_never
          split: sum.splits)
  have p: "raised (run imp ov) = None \<longrightarrow> list_ex isPlacement (steps (run imp ov))"
    by (simp add: run_steps run_raised split: sum.splits)
  show ?thesis
    using i r p by (simp add: init_steps run_steps)
qed

theorem hook_order_witness:
  "steps (snd (init homeOverlord))
     = [DirectiveInit ''guard_W2N1'', RegisterObjectives, RegisterCreepRequests] \<and>
   steps (run exampleImports homeOverlord)
     = [DirectiveRun ''guard_W2N1'', HandleSafeMode, PlaceDirectives] \<and>
   raised (run exampleImports homeOverlord) = None"
proof -
  have d: "directives homeOverlord = [''guard_W2N1'']"
    by (simp add: homeOverlord_def)
  have s: "handleSafeMode homeOverlord = Inr []"
    by (simp add: handleSafeMode_def nonInvaderHostiles_def example_defs)
  show ?thesis
    using hook_order [of homeOverlord exampleImports] d s
    by (simp add: init_steps run_steps run_raised)
qed

section \<open>The objective group: selection\<close>

lemma nearest_None_iff: "nearest f xs = None \<longleftrightarrow> xs = []"
  by (induction xs) (auto split: option.splits)

lemma nearest_Some:
  "nearest f xs = Some i \<Longrightarrow> i \<in> set xs \<and> (\<forall>j \<in> set xs. f i \<le> f j)"
proof (induction xs arbitrary: i)
  case Nil
  then show ?case by simp
next
  case (Cons x xs)
  show ?case
  proof (cases "nearest f xs")
    case None
    then have "xs = []" by (simp add: nearest_None_iff)
    with Cons.prems show ?thesis by simp
  next
    case (Some j)
    then have j: "j \<in> set xs" "\<forall>k \<in> set xs. f j \<le> f k"
      using Cons.IH by blast+
    show ?thesis
    proof (cases "f x \<le> f j")
      case True
      with Some Cons.prems have "i = x" by simp
      with True j show ?thesis by auto
    next
      case False
      with Some Cons.prems have "i = j" by simp
      with False j show ?thesis by auto
    qed
  qed
qed

lemma set_unclaimed:
  "set (unclaimed obs) = {i. i < length obs \<and> claimedBy (obs ! i) = None}"
  by (auto simp: unclaimed_def)

lemma nearestUnclaimed_None_iff:
  "nearestUnclaimed d obs = None \<longleftrightarrow> (\<forall>ob \<in> set obs. claimedBy ob \<noteq> None)"
proof -
  have "nearestUnclaimed d obs = None \<longleftrightarrow> set (unclaimed obs) = {}"
    by (simp add: nearestUnclaimed_def nearest_None_iff)
  also have "\<dots> \<longleftrightarrow> (\<forall>i < length obs. claimedBy (obs ! i) \<noteq> None)"
    by (auto simp: set_unclaimed)
  also have "\<dots> \<longleftrightarrow> (\<forall>ob \<in> set obs. claimedBy ob \<noteq> None)"
    by (metis in_set_conv_nth)
  finally show ?thesis .
qed

lemma nearestUnclaimed_Some:
  assumes "nearestUnclaimed d obs = Some i"
  shows "i < length obs" and "claimedBy (obs ! i) = None"
    and "\<forall>j < length obs. claimedBy (obs ! j) = None
           \<longrightarrow> d (target (obs ! i)) \<le> d (target (obs ! j))"
  using nearest_Some [OF assms [unfolded nearestUnclaimed_def]]
  by (auto simp: set_unclaimed)

lemma priorities_claim [simp]: "priorities (claim w x g) = priorities g"
  by (simp add: claim_def)


lemma assignFrom_Some:
  "assignFrom d w g bs = (Some t, g') \<Longrightarrow>
   \<exists>i. action t \<in> set bs \<and> action t \<in> set (capabilities w) \<and> owner t = creepRef w \<and>
       nearestUnclaimed (d w) (objectives g (action t)) = Some i \<and>
       taskTarget t = target (objectives g (action t) ! i) \<and>
       g' = claim (creepRef w) (taskTarget t) g \<and>
       (\<forall>b \<in> set (takeWhile (\<lambda>n. n \<noteq> action t) bs). b \<in> set (capabilities w)
            \<longrightarrow> (\<forall>ob \<in> set (objectives g b). claimedBy ob \<noteq> None))"
proof (induction bs)
  case Nil
  then show ?case by simp
next
  case (Cons b bs)
  show ?case
  proof (cases "b \<in> set (capabilities w)")
    case False
    with Cons.prems have "assignFrom d w g bs = (Some t, g')" by simp
    from Cons.IH [OF this] False show ?thesis by auto
  next
    case True
    show ?thesis
    proof (cases "nearestUnclaimed (d w) (objectives g b)")
      case None
      with True Cons.prems have "assignFrom d w g bs = (Some t, g')" by simp
      from Cons.IH [OF this] None show ?thesis
        by (auto simp: nearestUnclaimed_None_iff)
    next
      case (Some i)
      with True Cons.prems show ?thesis by auto
    qed
  qed
qed


lemma assignTask_unfold:
  "assignTask d w ov = (r, ov') \<longleftrightarrow>
     (\<exists>g'. assignFrom d w (objectiveGroup ov) (priorities (objectiveGroup ov)) = (r, g')
          \<and> ov' = ov\<lparr> objectiveGroup := g' \<rparr>)"
  by (auto simp: assignTask_def ObjectiveGroup_assignTask_def split: prod.splits)

text \<open>
  C4. When \<open>assignTask\<close> hands a creep a task, the task comes from a bucket of the
  priority list the creep is capable of, it is bound to an objective of that bucket that
  was not claimed, and in every bucket placed before it in the Overlord's
  \<open>objectivePriorities\<close> that the creep is capable of, every objective was claimed
  already. The priority list is not changed by the assignment.
\<close>

theorem assignTask_priority:
  assumes "priorities (objectiveGroup ov) = objectivePriorities ov"
    and "assignTask distance w ov = (Some t, ov')"
  shows "action t \<in> set (objectivePriorities ov) \<and>
         action t \<in> set (capabilities w) \<and>
         (\<exists>ob \<in> set (objectives (objectiveGroup ov) (action t)).
             claimedBy ob = None \<and> target ob = taskTarget t) \<and>
         (\<forall>b \<in> set (takeWhile (\<lambda>n. n \<noteq> action t) (objectivePriorities ov)).
             b \<in> set (capabilities w)
               \<longrightarrow> (\<forall>ob \<in> set (objectives (objectiveGroup ov) b). claimedBy ob \<noteq> None)) \<and>
         objectivePriorities ov' = objectivePriorities ov \<and>
         priorities (objectiveGroup ov') = objectivePriorities ov"
proof -
  obtain g' where g': "assignFrom distance w (objectiveGroup ov) (objectivePriorities ov)
                         = (Some t, g')"
    and ov': "ov' = ov\<lparr> objectiveGroup := g' \<rparr>"
    using assms by (auto simp: assignTask_unfold)
  from assignFrom_Some [OF g'] obtain i where
    i: "action t \<in> set (objectivePriorities ov)" "action t \<in> set (capabilities w)"
       "nearestUnclaimed (distance w) (objectives (objectiveGroup ov) (action t)) = Some i"
       "taskTarget t = target (objectives (objectiveGroup ov) (action t) ! i)"
       "g' = claim (creepRef w) (taskTarget t) (objectiveGroup ov)"
    and earlier: "\<forall>b \<in> set (takeWhile (\<lambda>n. n \<noteq> action t) (objectivePriorities ov)).
            b \<in> set (capabilities w)
              \<longrightarrow> (\<forall>ob \<in> set (objectives (objectiveGroup ov) b). claimedBy ob \<noteq> None)"
    by blast
  have "objectives (objectiveGroup ov) (action t) ! i
          \<in> set (objectives (objectiveGroup ov) (action t))"
    using nearestUnclaimed_Some(1) [OF i(3)] by simp
  then have "\<exists>ob \<in> set (objectives (objectiveGroup ov) (action t)).
               claimedBy ob = None \<and> target ob = taskTarget t"
    using nearestUnclaimed_Some(2) [OF i(3)] i(4) by auto
  then show ?thesis
    using i(1,2,5) earlier ov' assms(1) by simp
qed

section \<open>The objective group: claims\<close>


lemma target_mark [simp]: "target (mark w x ob) = target ob"
  by (simp add: mark_def)










section \<open>Assignment on the example colony\<close>

lemmas objective_defs =
  ObjectiveCollectEnergyMiningSite_def ObjectiveDepositContainer_def
  ObjectivePickupEnergy_def ObjectiveRepair_def ObjectiveBuild_def ObjectiveBuildRoad_def
  ObjectiveFortify_def ObjectiveUpgrade_def newObjective_def

lemmas register_defs =
  registerObjectives_def ObjectiveGroup_registerObjectives_def requestObjectives_def
  roomObjectives_def repairStructures_def newObjectiveGroup_def defaultPriorities_def
  RESOURCE_ENERGY_def STRUCTURE_CONTAINER_def STRUCTURE_ROAD_def

lemmas assign_defs =
  assignTask_def ObjectiveGroup_assignTask_def nearestUnclaimed_def unclaimed_def
  claim_def mark_def exampleDistance_def

lemma home_repair:
  "objectives (objectiveGroup (registerObjectives homeOverlord)) ''repair''
     = [ObjectiveRepair wornContainer, ObjectiveRepair scratchedTower]"
  by (simp add: register_defs objective_defs example_defs)

lemma home_buckets:
  "objectives (objectiveGroup (registerObjectives homeOverlord)) =
     (\<lambda>b. if b = ''repair'' then [ObjectiveRepair wornContainer, ObjectiveRepair scratchedTower]
          else if b = ''fortify'' then [ObjectiveFortify rampart]
          else if b = ''upgrade'' then [ObjectiveUpgrade 1]
          else [])"
  by (rule ext) (simp add: register_defs objective_defs example_defs)

lemma home_priorities:
  "priorities (objectiveGroup (registerObjectives homeOverlord)) = defaultPriorities"
  by (simp add: register_defs example_defs)

lemma home_group:
  "objectiveGroup (registerObjectives homeOverlord) =
     \<lparr> priorities = defaultPriorities,
       objectives =
         (\<lambda>b. if b = ''repair''
                 then [ObjectiveRepair wornContainer, ObjectiveRepair scratchedTower]
              else if b = ''fortify'' then [ObjectiveFortify rampart]
              else if b = ''upgrade'' then [ObjectiveUpgrade 1]
              else []) \<rparr>"
  using home_buckets home_priorities by simp

lemma home_task:
  "fst (assignTask exampleDistance repairer (registerObjectives homeOverlord))
     = Some \<lparr> owner = 102, action = ''repair'', taskTarget = StructureTarget wornContainer \<rparr>"
  by (simp add: assign_defs home_group defaultPriorities_def
        objective_defs repairer_def wornContainer_def scratchedTower_def)


lemma pair_fst_snd: "fst p = a \<Longrightarrow> p = (a, snd p)"
  by (cases p) simp

theorem assignTask_priority_witness:
  "priorities (objectiveGroup (registerObjectives homeOverlord))
     = objectivePriorities (registerObjectives homeOverlord) \<and>
   fst (assignTask exampleDistance repairer (registerObjectives homeOverlord))
     = Some \<lparr> owner = 102, action = ''repair'', taskTarget = StructureTarget wornContainer \<rparr> \<and>
   takeWhile (\<lambda>n. n \<noteq> ''repair'') (objectivePriorities (registerObjectives homeOverlord))
     = [''supplyTower'', ''supply'', ''pickupEnergy'', ''collectEnergyMiningSite'',
        ''collectEnergyContainer'', ''depositContainer'', ''build''] \<and>
   objectives (objectiveGroup (registerObjectives homeOverlord)) ''build'' = []"
proof -
  have q: "objectivePriorities (registerObjectives homeOverlord) = defaultPriorities"
    by (simp add: registerObjectives_def homeOverlord_def newOverlord_def)
  have p: "priorities (objectiveGroup (registerObjectives homeOverlord))
             = objectivePriorities (registerObjectives homeOverlord)"
    using home_priorities q by simp
  have t: "assignTask exampleDistance repairer (registerObjectives homeOverlord)
             = (Some \<lparr> owner = 102, action = ''repair'',
                       taskTarget = StructureTarget wornContainer \<rparr>,
                snd (assignTask exampleDistance repairer (registerObjectives homeOverlord)))"
    using home_task by (rule pair_fst_snd)
  show ?thesis
    using assignTask_priority [OF p t] p home_task
    by (simp add: q defaultPriorities_def home_buckets)
qed





section \<open>Repair objectives\<close>

lemma objectives_fold_register:
  "objectives (fold (\<lambda>r. ObjectiveGroup_registerObjectives (f r)) rs g) b =
     objectives g b @ concat (map (\<lambda>r. filter (\<lambda>ob. otype ob = b) (concat (f r))) rs)"
  by (induction rs arbitrary: g) (simp_all add: ObjectiveGroup_registerObjectives_def)

lemma otype_objectives [simp]:
  "otype (ObjectiveCollectEnergyMiningSite s) = ''collectEnergyMiningSite''"
  "otype (ObjectiveDepositContainer s) = ''depositContainer''"
  "otype (ObjectivePickupEnergy d) = ''pickupEnergy''"
  "otype (ObjectiveRepair s) = ''repair''"
  "otype (ObjectiveBuild n) = ''build''"
  "otype (ObjectiveBuildRoad n) = ''buildRoad''"
  "otype (ObjectiveFortify s) = ''fortify''"
  "otype (ObjectiveUpgrade n) = ''upgrade''"
  by (simp_all add: objective_defs)

lemma filter_map_const:
  "(\<And>v. P (k v) = c) \<Longrightarrow> filter P (map k xs) = (if c then map k xs else [])"
  by (induction xs) simp_all

lemma repair_of_room:
  "filter (\<lambda>ob. otype ob = ''repair'') (concat (roomObjectives ov r))
     = map ObjectiveRepair (repairStructures r)"
  by (simp add: roomObjectives_def Let_def filter_map_const split: option.splits)

lemma repair_of_requests:
  "filter (\<lambda>ob. otype ob = ''repair'') (concat (requestObjectives ov)) = []"
  by (simp add: requestObjectives_def Let_def filter_map_const)

lemma repair_bucket:
  "objectives (objectiveGroup (registerObjectives ov)) ''repair'' =
     objectives (objectiveGroup ov) ''repair''
       @ concat (map (\<lambda>r. map ObjectiveRepair (repairStructures r)) (rooms (colony ov)))"
  by (simp add: registerObjectives_def objectives_fold_register repair_of_room
        repair_of_requests ObjectiveGroup_registerObjectives_def)

lemma ObjectiveRepair_inject: "ObjectiveRepair s = ObjectiveRepair s' \<longleftrightarrow> s = s'"
  by (simp add: ObjectiveRepair_def newObjective_def)

text \<open>
  C10. During objective registration a repair objective is created for a structure among
  the repairables of a colony room exactly when its hits are strictly below its maximum
  hits and, if it is a container or a road, strictly below 70% of its maximum hits.
\<close>

theorem repair_objective_iff:
  assumes "r \<in> set (rooms (colony ov))"
    and "s \<in> set (repairables r)"
  shows "ObjectiveRepair s \<in> set (registered ov ''repair'')
         \<longleftrightarrow> hits s < hitsMax s \<and>
             (structureType s = STRUCTURE_CONTAINER \<or> structureType s = STRUCTURE_ROAD
                \<longrightarrow> real (hits s) < 0.7 * real (hitsMax s))"
proof -
  have "ObjectiveRepair s \<in> set (registered ov ''repair'')
        \<longleftrightarrow> (\<exists>r' \<in> set (rooms (colony ov)). s \<in> set (repairStructures r'))"
    by (auto simp: registered_def repair_bucket ObjectiveRepair_inject)
  also have "\<dots> \<longleftrightarrow> hits s < hitsMax s \<and>
             (structureType s = STRUCTURE_CONTAINER \<or> structureType s = STRUCTURE_ROAD
                \<longrightarrow> real (hits s) < 0.7 * real (hitsMax s))"
    using assms by (auto simp: repairStructures_def)
  finally show ?thesis .
qed

theorem repair_objective_iff_witness:
  "registered homeOverlord ''repair''
     = [ObjectiveRepair wornContainer, ObjectiveRepair scratchedTower] \<and>
   real (hits wornContainer) < 0.7 * real (hitsMax wornContainer) \<and>
   \<not> real (hits usedContainer) < 0.7 * real (hitsMax usedContainer) \<and>
   hits usedContainer < hitsMax usedContainer \<and>
   \<not> real (hits scratchedTower) < 0.7 * real (hitsMax scratchedTower) \<and>
   hits scratchedTower < hitsMax scratchedTower"
proof -
  have r: "homeRoom \<in> set (rooms (colony homeOverlord))"
    by (simp add: homeOverlord_def newOverlord_def colonyOf_def)
  have s: "wornContainer \<in> set (repairables homeRoom)"
          "usedContainer \<in> set (repairables homeRoom)"
          "scratchedTower \<in> set (repairables homeRoom)"
    by (simp_all add: homeRoom_def)
  have e: "objectives (objectiveGroup homeOverlord) ''repair'' = []"
    by (simp add: homeOverlord_def newOverlord_def newObjectiveGroup_def)
  have g: "registered homeOverlord ''repair''
             = [ObjectiveRepair wornContainer, ObjectiveRepair scratchedTower]"
    using e home_repair by (simp add: registered_def)
  show ?thesis
    using repair_objective_iff [OF r s(1)] repair_objective_iff [OF r s(2)]
          repair_objective_iff [OF r s(3)] g
    by (simp add: wornContainer_def usedContainer_def scratchedTower_def
          STRUCTURE_CONTAINER_def STRUCTURE_ROAD_def)
qed

section \<open>The queen\<close>







end
